theory Spec2Isabelle
  imports Complex_Main
begin

section \<open>Point-of-sale checkout: products, cart, customer, checkout (Task.cpp)\<close>

text \<open>
  A shallow embedding of \<^verbatim>\<open>src/Task.cpp\<close>.

  \<^item> \<^verbatim>\<open>shared_ptr<Product>\<close> is an address \<open>ProductPtr\<close> into an explicit store of product
    objects, so that two cart lines holding the same pointer see the same object.
    Every address designates an object: a null pointer would be dereferenced by
    \<^verbatim>\<open>Cart::add\<close> and \<^verbatim>\<open>checkout\<close> without a test, which is outside the model.
  \<^item> \<^verbatim>\<open>int\<close> is \<open>int\<close>, read as a 32-bit two's complement value. The one place where the
    program computes with an \<^verbatim>\<open>int\<close> is \<^verbatim>\<open>quantity -= amount\<close>: there the wrap-around is
    written out (\<open>int32\<close>). Signed overflow is undefined in C++; the wrap-around is what
    the compiled program does, and statements about the new stock say when they need the
    subtraction not to overflow.
  \<^item> \<^verbatim>\<open>double\<close> is a type variable \<open>'d\<close> that has \<open>+\<close>, \<open>-\<close>, \<open>*\<close> and \<open><\<close> and no law
    at all, and the conversion of an \<^verbatim>\<open>int\<close> to a \<^verbatim>\<open>double\<close> is a parameter \<open>dbl\<close>. What is
    proved for every \<open>'d\<close> holds for IEEE arithmetic with its rounding. Runs on concrete
    objects take \<open>'d\<close> to be \<open>double\<close>, a model of IEEE 754 binary64 under the default
    rounding (to nearest, ties to even), with subnormal numbers, the two zeros, the
    infinities and NaN.
  \<^item> \<^verbatim>\<open>time(nullptr)\<close> is a parameter \<open>now\<close> of \<open>checkout\<close>: one call of \<open>checkout\<close> sees
    one value of the clock.
  \<^item> \<^verbatim>\<open>cout\<close> is a record of its sticky formatting state and of the items written so far.
    A \<^verbatim>\<open>double\<close> written to it is recorded with the float field and precision in
    force at that moment; its digits are not computed.
  \<^item> A \<^verbatim>\<open>throw\<close> is the outcome \<open>Throws e s\<close>, with the state \<open>s\<close> at the throw.
\<close>

subsection \<open>Products\<close>

type_synonym time_t = int
type_synonym ProductPtr = nat

text \<open>
  The four classes of the hierarchy differ in the fields they add to \<^verbatim>\<open>Product\<close> and in
  what their virtual functions answer.
\<close>

datatype 'd product_class =
    Product
  | ExpirableProduct time_t
  | ShippableProduct 'd
  | ExpirableShippableProduct time_t 'd

record 'd product =
  name :: string
  price :: 'd
  quantity :: int
  dyn_class :: "'d product_class"

definition isExpired :: "time_t \<Rightarrow> 'd product \<Rightarrow> bool" where
  "isExpired now p =
     (case dyn_class p of
        Product \<Rightarrow> False
      | ExpirableProduct expiryDate \<Rightarrow> now > expiryDate
      | ShippableProduct w \<Rightarrow> False
      | ExpirableShippableProduct expiryDate w \<Rightarrow> now > expiryDate)"

definition isShippable :: "'d product \<Rightarrow> bool" where
  "isShippable p =
     (case dyn_class p of
        Product \<Rightarrow> False
      | ExpirableProduct expiryDate \<Rightarrow> False
      | ShippableProduct w \<Rightarrow> True
      | ExpirableShippableProduct expiryDate w \<Rightarrow> True)"

text \<open>
  \<^verbatim>\<open>dynamic_cast<Shippable*>\<close> followed by \<^verbatim>\<open>getWeight()\<close>: the cast gives a null pointer for
  the two classes that do not derive from \<^verbatim>\<open>Shippable\<close>.
\<close>

definition getWeight :: "'d product \<Rightarrow> 'd option" where
  "getWeight p =
     (case dyn_class p of
        Product \<Rightarrow> None
      | ExpirableProduct expiryDate \<Rightarrow> None
      | ShippableProduct w \<Rightarrow> Some w
      | ExpirableShippableProduct expiryDate w \<Rightarrow> Some w)"

text \<open>
  The values of a 32-bit \<^verbatim>\<open>int\<close>, and the value that two's complement arithmetic gives to
  an integer outside them.
\<close>

definition is_int32 :: "int \<Rightarrow> bool" where
  "is_int32 x \<longleftrightarrow> - 2147483648 \<le> x \<and> x < 2147483648"

definition int32 :: "int \<Rightarrow> int" where
  "int32 x = (x + 2147483648) mod 4294967296 - 2147483648"

definition reduceQuantity :: "int \<Rightarrow> 'd product \<Rightarrow> 'd product" where
  "reduceQuantity amount p = p\<lparr>quantity := int32 (quantity p - amount)\<rparr>"

subsection \<open>The output stream\<close>

datatype floatfield = defaultfloat | fixed

text \<open>
  What has been written: a string, an \<^verbatim>\<open>int\<close> in decimal, the decimal digits of a
  \<^verbatim>\<open>double\<close> truncated to \<^verbatim>\<open>int\<close> (\<^verbatim>\<open>to_string(int(x))\<close>), or a \<^verbatim>\<open>double\<close> under the
  formatting state of the stream.
\<close>

datatype 'd token =
    Str string
  | IntDec int
  | TruncDec 'd
  | Dbl floatfield nat 'd

record 'd ostream =
  floatfield_of :: floatfield
  precision :: nat
  written :: "'d token list"

definition put :: "'d token list \<Rightarrow> 'd ostream \<Rightarrow> 'd ostream" where
  "put xs os = os\<lparr>written := written os @ xs\<rparr>"

definition put_double :: "'d \<Rightarrow> 'd ostream \<Rightarrow> 'd ostream" where
  "put_double x os = put [Dbl (floatfield_of os) (precision os) x] os"

definition set_fixed :: "'d ostream \<Rightarrow> 'd ostream" where
  "set_fixed os = os\<lparr>floatfield_of := fixed\<rparr>"

definition setprecision :: "nat \<Rightarrow> 'd ostream \<Rightarrow> 'd ostream" where
  "setprecision n os = os\<lparr>precision := n\<rparr>"

subsection \<open>Customer, cart and the state of the program\<close>

record 'd customer =
  customer_name :: string
  balance :: 'd

definition pay :: "'d::minus \<Rightarrow> 'd customer \<Rightarrow> 'd customer" where
  "pay amount c = c\<lparr>balance := balance c - amount\<rparr>"

definition showBalance :: "'d customer \<Rightarrow> 'd ostream \<Rightarrow> 'd ostream" where
  "showBalance c os =
     put [Str ''\<newline>'']
       (put_double (balance c)
         (setprecision 2 (set_fixed (put [Str ''Customer Balance: ''] os))))"

record CartItem =
  item_product :: ProductPtr
  item_quantity :: int

datatype error =
    EmptyCart
  | ProductExpired string
  | InsufficientStock string
  | InsufficientFunds

text \<open>
  Every \<^verbatim>\<open>throw\<close> of the program is a \<^verbatim>\<open>runtime_error\<close> with a message; the constructors
  name the throw sites. \<open>what_checkout\<close> gives the messages of \<^verbatim>\<open>checkout\<close>. The one throw of
  \<^verbatim>\<open>Cart::add\<close> is \<open>InsufficientStock\<close> too, with the message \<open>what_add\<close> of the product's
  name.
\<close>

fun what_checkout :: "error \<Rightarrow> string" where
  "what_checkout EmptyCart = ''Cart is empty.''"
| "what_checkout (ProductExpired n) = n @ '' is expired.''"
| "what_checkout (InsufficientStock n) = ''Insufficient stock: '' @ n"
| "what_checkout InsufficientFunds = ''Customer balance is insufficient.''"

definition what_add :: "string \<Rightarrow> string" where
  "what_add n = ''Not enough stock for: '' @ n"

record 'd state =
  products :: "ProductPtr \<Rightarrow> 'd product"
  customer :: "'d customer"
  cart :: "CartItem list"
  cout :: "'d ostream"

datatype 's outcome = Returns 's | Throws error 's

subsection \<open>Cart\<close>

definition add :: "ProductPtr \<Rightarrow> int \<Rightarrow> 'd state \<Rightarrow> 'd state outcome" where
  "add product qty s =
     (if qty > quantity (products s product)
      then Throws (InsufficientStock (name (products s product))) s
      else Returns (s\<lparr>cart := cart s @ [\<lparr>item_product = product, item_quantity = qty\<rparr>]\<rparr>))"

definition isEmpty :: "'d state \<Rightarrow> bool" where
  "isEmpty s = (cart s = [])"

definition clear :: "'d state \<Rightarrow> 'd state" where
  "clear s = s\<lparr>cart := []\<rparr>"

subsection \<open>Shipping service\<close>

type_synonym 'd shipment = "'d token list \<times> 'd"

text \<open>The loop of \<^verbatim>\<open>shipItems\<close>: each description on a line, the weights added up.\<close>

fun shipItems_loop :: "'d::plus shipment list \<Rightarrow> 'd \<times> 'd ostream \<Rightarrow> 'd \<times> 'd ostream" where
  "shipItems_loop [] acc = acc"
| "shipItems_loop ((desc, weight) # rest) (totalWeight, os) =
     shipItems_loop rest (totalWeight + weight, put [Str ''\<newline>''] (put desc os))"

definition shipItems :: "(int \<Rightarrow> 'd::plus) \<Rightarrow> 'd shipment list \<Rightarrow> 'd ostream \<Rightarrow> 'd ostream" where
  "shipItems dbl items os =
     (case shipItems_loop items (dbl 0, put [Str ''** Shipment notice **\<newline>''] os) of
        (totalWeight, os1) \<Rightarrow>
          put [Str ''kg\<newline>\<newline>'']
            (put_double totalWeight
              (setprecision 1 (set_fixed (put [Str ''Total package weight ''] os1)))))"

subsection \<open>Checkout\<close>

text \<open>
  The first loop of \<^verbatim>\<open>checkout\<close>: it reads the products and the cart, and changes only
  the three local variables \<^verbatim>\<open>subtotal\<close>, \<^verbatim>\<open>shippingCost\<close> and \<^verbatim>\<open>shippingItems\<close>.
\<close>

fun checkout_lines ::
  "(int \<Rightarrow> 'd::{plus,times}) \<Rightarrow> time_t \<Rightarrow> (ProductPtr \<Rightarrow> 'd product) \<Rightarrow> CartItem list \<Rightarrow>
     'd \<times> 'd \<times> 'd shipment list \<Rightarrow> error + 'd \<times> 'd \<times> 'd shipment list" where
  "checkout_lines dbl now ps [] acc = Inr acc"
| "checkout_lines dbl now ps (item # rest) (subtotal, shippingCost, shippingItems) =
     (let product = ps (item_product item) in
      if isExpired now product then Inl (ProductExpired (name product))
      else if item_quantity item > quantity product then Inl (InsufficientStock (name product))
      else
        let subtotal' = subtotal + price product * dbl (item_quantity item) in
        if isShippable product then
          (case getWeight product of
             Some w \<Rightarrow>
               let weight = w * dbl (item_quantity item);
                   desc = [IntDec (item_quantity item), Str ''x '', Str (name product),
                           Str ''    '', TruncDec (weight * dbl 1000), Str ''g'']
               in checkout_lines dbl now ps rest
                    (subtotal', shippingCost + weight * dbl 10, shippingItems @ [(desc, weight)])
           | None \<Rightarrow> checkout_lines dbl now ps rest (subtotal', shippingCost, shippingItems))
        else checkout_lines dbl now ps rest (subtotal', shippingCost, shippingItems))"

text \<open>
  The second loop: one receipt line per cart line, and the product's stock reduced
  through the pointer of the line.
\<close>

fun receipt_lines :: "(int \<Rightarrow> 'd::times) \<Rightarrow> CartItem list \<Rightarrow> 'd state \<Rightarrow> 'd state" where
  "receipt_lines dbl [] s = s"
| "receipt_lines dbl (item # rest) s =
     (let product = products s (item_product item);
          os = put [Str ''\<newline>'']
                 (put_double (price product * dbl (item_quantity item))
                   (put [IntDec (item_quantity item), Str ''x '', Str (name product), Str ''    '']
                     (cout s)))
      in receipt_lines dbl rest
           (s\<lparr>cout := os,
              products := (products s)
                (item_product item := reduceQuantity (item_quantity item) product)\<rparr>))"

definition checkout ::
  "(int \<Rightarrow> 'd::{plus,minus,times,ord}) \<Rightarrow> time_t \<Rightarrow> 'd state \<Rightarrow> 'd state outcome" where
  "checkout dbl now s =
     (if isEmpty s then Throws EmptyCart s
      else
        case checkout_lines dbl now (products s) (cart s) (dbl 0, dbl 0, []) of
          Inl e \<Rightarrow> Throws e s
        | Inr (subtotal, shippingCost, shippingItems) \<Rightarrow>
            let total = subtotal + shippingCost in
            if balance (customer s) < total then Throws InsufficientFunds s
            else
              let s1 = (if shippingItems \<noteq> []
                        then s\<lparr>cout := shipItems dbl shippingItems (cout s)\<rparr> else s);
                  s2 = s1\<lparr>cout := put [Str ''** Checkout receipt **\<newline>''] (cout s1)\<rparr>;
                  s3 = receipt_lines dbl (cart s2) s2;
                  s4 = s3\<lparr>cout :=
                         put [Str ''\<newline>\<newline>'']
                           (put_double total
                             (put [Str ''\<newline>'', Str ''Amount           '']
                               (put_double shippingCost
                                 (put [Str ''\<newline>'', Str ''Shipping         '']
                                   (put_double subtotal
                                     (put [Str ''----------------------\<newline>'',
                                           Str ''Subtotal         ''] (cout s3)))))))\<rparr>;
                  s5 = s4\<lparr>customer := pay total (customer s4)\<rparr>;
                  s6 = s5\<lparr>cout := showBalance (customer s5) (cout s5)\<rparr>
              in Returns (clear s6))"

subsection \<open>IEEE 754 binary64\<close>

text \<open>
  A \<^verbatim>\<open>double\<close> is a finite number (\<open>Finite 0\<close> is \<open>+0\<close>), \<open>-0\<close>, an infinity or NaN. The
  finite numbers that arithmetic produces are those of binary64: \<open>m * 2 ^ e\<close> with
  \<open>\<bar>m\<bar> < 2 ^ 53\<close> and \<open>- 1074 \<le> e \<le> 971\<close>.
\<close>

datatype double = Finite real | MinusZero | PlusInf | MinusInf | NaN

definition pow2 :: "int \<Rightarrow> real" where
  "pow2 e = (if 0 \<le> e then 2 ^ nat e else 1 / 2 ^ nat (- e))"

text \<open>The number of binary digits of a positive integer.\<close>

function bit_length :: "int \<Rightarrow> int" where
  "bit_length n = (if n \<le> 0 then 0 else 1 + bit_length (n div 2))"
  by auto
termination
  by (relation "measure nat") auto

declare bit_length.simps [simp del]

text \<open>\<open>ilog2 x\<close> is the integer \<open>k\<close> with \<open>2 ^ k \<le> x < 2 ^ (k + 1)\<close>, for \<open>x > 0\<close>.\<close>

definition ilog2 :: "real \<Rightarrow> int" where
  "ilog2 x =
     (if 1 \<le> x then bit_length \<lfloor>x\<rfloor> - 1 else - bit_length (\<lceil>1 / x\<rceil> - 1))"

text \<open>Rounding to the nearest integer, a tie to the even one.\<close>

definition round_even :: "real \<Rightarrow> int" where
  "round_even x =
     (let f = \<lfloor>x\<rfloor>; d = x - of_int f
      in if d < 1 / 2 then f else if 1 / 2 < d then f + 1 else if even f then f else f + 1)"

text \<open>
  The \<^verbatim>\<open>double\<close> nearest to a real number: the number is cut to 53 binary digits, or to
  a multiple of \<open>2 ^ - 1074\<close> where it is subnormal; what reaches \<open>2 ^ 1024\<close> is an
  infinity, and what is rounded to nothing is a zero of the number's sign. A decimal
  literal of the program, such as \<^verbatim>\<open>0.7\<close>, denotes \<open>round_double (7 / 10)\<close>.
\<close>

definition round_double :: "real \<Rightarrow> double" where
  "round_double r =
     (if r = 0 then Finite 0
      else
        let a = \<bar>r\<bar>;
            e = max (ilog2 a - 52) (- 1074);
            m = round_even (a / pow2 e);
            v = of_int m * pow2 e
        in if pow2 1024 \<le> v then (if r < 0 then MinusInf else PlusInf)
           else if m = 0 then (if r < 0 then MinusZero else Finite 0)
           else Finite (if r < 0 then - v else v))"

fun is_inf :: "double \<Rightarrow> bool" where
  "is_inf PlusInf = True"
| "is_inf MinusInf = True"
| "is_inf x = False"

fun signbit :: "double \<Rightarrow> bool" where
  "signbit (Finite r) = (r < 0)"
| "signbit MinusZero = True"
| "signbit PlusInf = False"
| "signbit MinusInf = True"
| "signbit NaN = False"

fun valof :: "double \<Rightarrow> real" where
  "valof (Finite r) = r"
| "valof x = 0"

fun rank :: "double \<Rightarrow> int" where
  "rank PlusInf = 1"
| "rank MinusInf = - 1"
| "rank x = 0"

text \<open>
  The operations of \<^verbatim>\<open>double\<close>: each is the exact result rounded, with the rules of IEEE
  754 for the zeros, the infinities and NaN. A comparison with NaN is false.
\<close>

instantiation double :: "{plus,minus,uminus,times,ord}"
begin

definition uminus_double :: "double \<Rightarrow> double" where
  "uminus_double x =
     (case x of
        Finite r \<Rightarrow> if r = 0 then MinusZero else Finite (- r)
      | MinusZero \<Rightarrow> Finite 0
      | PlusInf \<Rightarrow> MinusInf
      | MinusInf \<Rightarrow> PlusInf
      | NaN \<Rightarrow> NaN)"

definition plus_double :: "double \<Rightarrow> double \<Rightarrow> double" where
  "plus_double x y =
     (if x = NaN \<or> y = NaN then NaN
      else if is_inf x \<and> is_inf y then (if x = y then x else NaN)
      else if is_inf x then x
      else if is_inf y then y
      else if x = MinusZero \<and> y = MinusZero then MinusZero
      else round_double (valof x + valof y))"

definition minus_double :: "double \<Rightarrow> double \<Rightarrow> double" where
  "minus_double x y = x + (- y)"

definition times_double :: "double \<Rightarrow> double \<Rightarrow> double" where
  "times_double x y =
     (if x = NaN \<or> y = NaN then NaN
      else if is_inf x \<or> is_inf y then
        (if (\<not> is_inf x \<and> valof x = 0) \<or> (\<not> is_inf y \<and> valof y = 0) then NaN
         else if signbit x \<noteq> signbit y then MinusInf else PlusInf)
      else if valof x * valof y = 0 then
        (if signbit x \<noteq> signbit y then MinusZero else Finite 0)
      else round_double (valof x * valof y))"

definition less_double :: "double \<Rightarrow> double \<Rightarrow> bool" where
  "less_double x y \<longleftrightarrow>
     x \<noteq> NaN \<and> y \<noteq> NaN \<and> (rank x < rank y \<or> (rank x = rank y \<and> valof x < valof y))"

definition less_eq_double :: "double \<Rightarrow> double \<Rightarrow> bool" where
  "less_eq_double x y \<longleftrightarrow>
     x \<noteq> NaN \<and> y \<noteq> NaN \<and> (rank x < rank y \<or> (rank x = rank y \<and> valof x \<le> valof y))"

instance ..

end

text \<open>The conversion of an \<^verbatim>\<open>int\<close> to \<^verbatim>\<open>double\<close>; it is exact on 32-bit values.\<close>

definition double_of_int :: "int \<Rightarrow> double" where
  "double_of_int i = round_double (of_int i)"

subsection \<open>The program's own run\<close>

text \<open>
  Calls in sequence inside one \<^verbatim>\<open>try\<close> block: the first throw ends the block.
\<close>

definition and_then :: "'s outcome \<Rightarrow> ('s \<Rightarrow> 's outcome) \<Rightarrow> 's outcome" where
  "and_then r f = (case r of Returns s \<Rightarrow> f s | Throws e s \<Rightarrow> Throws e s)"

fun state_of :: "'s outcome \<Rightarrow> 's" where
  "state_of (Returns s) = s"
| "state_of (Throws e s) = s"

text \<open>
  The objects \<^verbatim>\<open>main\<close> makes: cheese at address 0, biscuits at 1, the TV at 2 and the
  scratch card at 3 (and at every other address, which no line of these carts uses).
  Prices and the balance are \<^verbatim>\<open>int\<close> literals converted to \<^verbatim>\<open>double\<close>; the weights are the
  literals \<^verbatim>\<open>0.2\<close>, \<^verbatim>\<open>0.7\<close> and \<^verbatim>\<open>10.0\<close>. The stream is as a program finds it:
  \<^verbatim>\<open>defaultfloat\<close>, precision 6.
\<close>

definition main_products :: "time_t \<Rightarrow> ProductPtr \<Rightarrow> double product" where
  "main_products tomorrow =
     (\<lambda>a. \<lparr>name = ''Scratch Card'', price = double_of_int 50, quantity = 100,
            dyn_class = Product\<rparr>)
       (0 := \<lparr>name = ''Cheese'', price = double_of_int 100, quantity = 10,
                dyn_class = ExpirableShippableProduct tomorrow (round_double (2 / 10))\<rparr>,
        1 := \<lparr>name = ''Biscuits'', price = double_of_int 150, quantity = 5,
                dyn_class = ExpirableShippableProduct tomorrow (round_double (7 / 10))\<rparr>,
        2 := \<lparr>name = ''TV'', price = double_of_int 5000, quantity = 3,
                dyn_class = ShippableProduct (round_double 10)\<rparr>)"

definition main_init :: "time_t \<Rightarrow> double state" where
  "main_init now =
     \<lparr>products = main_products (now + 86400),
      customer = \<lparr>customer_name = ''Ibrahim'', balance = double_of_int 1000\<rparr>,
      cart = [],
      cout = \<lparr>floatfield_of = defaultfloat, precision = 6, written = []\<rparr>\<rparr>"

text \<open>
  The \<^verbatim>\<open>try\<close> block of \<^verbatim>\<open>main\<close>. The handler writes the message to \<^verbatim>\<open>cerr\<close>, which is
  not modelled.
\<close>

definition main :: "time_t \<Rightarrow> double state outcome" where
  "main now =
     and_then (and_then (and_then (add 0 1 (main_init now)) (add 1 1)) (add 3 1))
       (checkout double_of_int now)"

definition main_cart :: "CartItem list" where
  "main_cart =
     [\<lparr>item_product = 0, item_quantity = 1\<rparr>,
      \<lparr>item_product = 1, item_quantity = 1\<rparr>,
      \<lparr>item_product = 3, item_quantity = 1\<rparr>]"

subsection \<open>Notions of the specification\<close>

text \<open>A line passes the two tests of the first loop: not expired, and within stock.\<close>

abbreviation line_passes :: "time_t \<Rightarrow> (ProductPtr \<Rightarrow> 'd product) \<Rightarrow> CartItem \<Rightarrow> bool" where
  "line_passes now ps i \<equiv>
     \<not> isExpired now (ps (item_product i)) \<and> item_quantity i \<le> quantity (ps (item_product i))"

text \<open>What the lines of a cart request of the product at address \<open>p\<close>, all together.\<close>

definition requested :: "ProductPtr \<Rightarrow> CartItem list \<Rightarrow> int" where
  "requested p items =
     sum_list (map item_quantity (filter (\<lambda>i. item_product i = p) items))"

text \<open>
  The sums of the cart, as \<^verbatim>\<open>double\<close> arithmetic gives them: from 0, line after line in the
  order of the cart, \<open>price * quantity\<close> added for every line, and
  \<open>weight * quantity * 10\<close> for every line of a shippable product; each operation is one
  operation of \<open>'d\<close>.
\<close>

definition subtotal_of ::
  "(int \<Rightarrow> 'd::{plus,times}) \<Rightarrow> (ProductPtr \<Rightarrow> 'd product) \<Rightarrow> CartItem list \<Rightarrow> 'd" where
  "subtotal_of dbl ps items =
     foldl (\<lambda>a i. a + price (ps (item_product i)) * dbl (item_quantity i)) (dbl 0) items"

definition shipping_of ::
  "(int \<Rightarrow> 'd::{plus,times}) \<Rightarrow> (ProductPtr \<Rightarrow> 'd product) \<Rightarrow> CartItem list \<Rightarrow> 'd" where
  "shipping_of dbl ps items =
     foldl (\<lambda>a i. case getWeight (ps (item_product i)) of
                     Some w \<Rightarrow> a + w * dbl (item_quantity i) * dbl 10
                   | None \<Rightarrow> a) (dbl 0) items"

text \<open>
  The same sums in exact arithmetic, over the values of the \<^verbatim>\<open>double\<close>s: what the
  specification writes as \<open>sum (unitPrice * qty)\<close> and \<open>10 * sum (weight * qty)\<close>.
\<close>

definition exact_subtotal :: "(ProductPtr \<Rightarrow> double product) \<Rightarrow> CartItem list \<Rightarrow> real" where
  "exact_subtotal ps items =
     (\<Sum>i\<leftarrow>items. valof (price (ps (item_product i))) * real_of_int (item_quantity i))"

definition exact_shipping :: "(ProductPtr \<Rightarrow> double product) \<Rightarrow> CartItem list \<Rightarrow> real" where
  "exact_shipping ps items =
     10 * (\<Sum>i\<leftarrow>filter (\<lambda>i. isShippable (ps (item_product i))) items.
             case getWeight (ps (item_product i)) of
               Some w \<Rightarrow> valof w * real_of_int (item_quantity i)
             | None \<Rightarrow> 0)"

text \<open>
  Three products priced \<^verbatim>\<open>0.7\<close>, \<^verbatim>\<open>2.2\<close> and \<^verbatim>\<open>0.7\<close>, none shippable, none expirable,
  one piece of each in stock and in the cart, and a customer with a balance of \<^verbatim>\<open>3.6\<close>.
\<close>

definition rounding_state :: "double state" where
  "rounding_state =
     \<lparr>products =
        (\<lambda>a. \<lparr>name = ''Tea'', price = round_double (7 / 10), quantity = 1,
               dyn_class = Product\<rparr>)
          (1 := \<lparr>name = ''Jam'', price = round_double (22 / 10), quantity = 1,
                   dyn_class = Product\<rparr>),
      customer = \<lparr>customer_name = ''Ibrahim'', balance = round_double (36 / 10)\<rparr>,
      cart = [\<lparr>item_product = 0, item_quantity = 1\<rparr>,
              \<lparr>item_product = 1, item_quantity = 1\<rparr>,
              \<lparr>item_product = 2, item_quantity = 1\<rparr>],
      cout = \<lparr>floatfield_of = defaultfloat, precision = 6, written = []\<rparr>\<rparr>"

text \<open>
  The end of what a successful checkout writes: the totals under the float field \<open>f\<close> and
  precision \<open>n\<close> the stream has when the receipt is written, and the balance line.
\<close>

definition totals_block :: "floatfield \<Rightarrow> nat \<Rightarrow> 'd \<Rightarrow> 'd \<Rightarrow> 'd \<Rightarrow> 'd \<Rightarrow> 'd token list" where
  "totals_block f n subtotal shippingCost amount new_balance =
     [Str ''----------------------\<newline>'',
      Str ''Subtotal         '', Dbl f n subtotal, Str ''\<newline>'',
      Str ''Shipping         '', Dbl f n shippingCost, Str ''\<newline>'',
      Str ''Amount           '', Dbl f n amount, Str ''\<newline>\<newline>'',
      Str ''Customer Balance: '', Dbl fixed 2 new_balance, Str ''\<newline>'']"

text \<open>
  A cart built by calls of \<^verbatim>\<open>Cart::add\<close> only; a call that throws leaves the cart as it
  was and the next call goes on.
\<close>

fun add_all :: "(ProductPtr \<times> int) list \<Rightarrow> 'd state \<Rightarrow> 'd state" where
  "add_all [] s = s"
| "add_all ((p, q) # rest) s = add_all rest (state_of (add p q s))"

section \<open>Properties\<close>

subsection \<open>Unfolding the model on concrete inputs\<close>

lemmas model_defs = checkout_def isEmpty_def clear_def add_def and_then_def Let_def
  isExpired_def isShippable_def getWeight_def reduceQuantity_def put_def put_double_def
  set_fixed_def setprecision_def pay_def showBalance_def shipItems_def int32_def

text \<open>
  The arithmetic of \<open>double\<close> on numerals. The equations are stated for arguments that are
  known to be finite, positive or negative, so that they compute and leave an operation
  on unknown arguments as it is.
\<close>

lemma bit_length_pos: "0 < n \<Longrightarrow> bit_length n = 1 + bit_length (n div 2)"
  by (simp add: bit_length.simps)

lemma bit_length_nonpos: "n \<le> 0 \<Longrightarrow> bit_length n = 0"
  by (simp add: bit_length.simps)

lemma plus_Finite: "Finite a + Finite b = round_double (a + b)"
  by (simp add: plus_double_def)

lemma minus_Finite: "Finite a - Finite b = round_double (a - b)"
  by (simp add: minus_double_def uminus_double_def plus_double_def)

lemma times_Finite:
  "Finite a * Finite b =
     (if a * b = 0 then (if (a < 0) \<noteq> (b < 0) then MinusZero else Finite 0)
      else round_double (a * b))"
  by (simp add: times_double_def)

lemma less_Finite: "Finite a < Finite b \<longleftrightarrow> a < b"
  by (simp add: less_double_def)

lemma round_double_0: "round_double 0 = Finite 0"
  by (simp add: round_double_def)

lemma round_double_pos:
  "0 < r \<Longrightarrow> round_double r =
     (if pow2 1024 \<le> of_int (round_even (r / pow2 (max (ilog2 r - 52) (- 1074)))) *
                      pow2 (max (ilog2 r - 52) (- 1074))
      then PlusInf
      else if round_even (r / pow2 (max (ilog2 r - 52) (- 1074))) = 0 then Finite 0
      else Finite (of_int (round_even (r / pow2 (max (ilog2 r - 52) (- 1074)))) *
                   pow2 (max (ilog2 r - 52) (- 1074))))"
  by (simp add: round_double_def Let_def)

lemma round_double_neg:
  "r < 0 \<Longrightarrow> round_double r =
     (if pow2 1024 \<le> of_int (round_even (- r / pow2 (max (ilog2 (- r) - 52) (- 1074)))) *
                      pow2 (max (ilog2 (- r) - 52) (- 1074))
      then MinusInf
      else if round_even (- r / pow2 (max (ilog2 (- r) - 52) (- 1074))) = 0 then MinusZero
      else Finite (- (of_int (round_even (- r / pow2 (max (ilog2 (- r) - 52) (- 1074)))) *
                      pow2 (max (ilog2 (- r) - 52) (- 1074)))))"
  by (simp add: round_double_def Let_def abs_if)

lemmas double_eval = double_of_int_def plus_Finite minus_Finite times_Finite less_Finite
  round_double_0 round_double_pos round_double_neg ilog2_def round_even_def pow2_def
  bit_length_pos bit_length_nonpos

text \<open>
  Three values to compare with a machine: \<^verbatim>\<open>0.1 + 0.2\<close> is \<^verbatim>\<open>0.30000000000000004\<close>,
  \<^verbatim>\<open>9007199254740992.0 + 1.0\<close> is \<^verbatim>\<open>9007199254740992.0\<close> (a tie, to the even neighbour), and
  \<^verbatim>\<open>-3 * 0.7\<close> is \<^verbatim>\<open>-2.0999999999999996\<close>.
\<close>

lemma double_examples:
  "round_double (1 / 10) + round_double (2 / 10) = Finite (1351079888211149 / 4503599627370496)"
  "Finite 9007199254740992 + Finite 1 = Finite 9007199254740992"
  "double_of_int (- 3) * round_double (7 / 10) = Finite (- (1182194902184755 / 562949953421312))"
  by (simp_all add: double_eval)

text \<open>
  The objects of \<^verbatim>\<open>main\<close> with their literals rounded: \<^verbatim>\<open>0.2\<close> and \<^verbatim>\<open>0.7\<close> are not
  binary fractions.
\<close>

lemma main_products_values:
  "main_products tomorrow =
     (\<lambda>a. \<lparr>name = ''Scratch Card'', price = Finite 50, quantity = 100, dyn_class = Product\<rparr>)
       (0 := \<lparr>name = ''Cheese'', price = Finite 100, quantity = 10,
                dyn_class = ExpirableShippableProduct tomorrow
                  (Finite (3602879701896397 / 18014398509481984))\<rparr>,
        1 := \<lparr>name = ''Biscuits'', price = Finite 150, quantity = 5,
                dyn_class = ExpirableShippableProduct tomorrow
                  (Finite (3152519739159347 / 4503599627370496))\<rparr>,
        2 := \<lparr>name = ''TV'', price = Finite 5000, quantity = 3,
                dyn_class = ShippableProduct (Finite 10)\<rparr>)"
  by (simp add: main_products_def double_eval)

lemma main_init_values:
  "main_init now =
     \<lparr>products = main_products (now + 86400),
      customer = \<lparr>customer_name = ''Ibrahim'', balance = Finite 1000\<rparr>,
      cart = [],
      cout = \<lparr>floatfield_of = defaultfloat, precision = 6, written = []\<rparr>\<rparr>"
  by (simp add: main_init_def double_eval)

lemmas main_defs = main_def main_init_values main_products_values main_cart_def

subsection \<open>32-bit integers\<close>

lemma int32_id: "is_int32 x \<Longrightarrow> int32 x = x"
  by (simp add: is_int32_def int32_def)

lemma is_int32_int32: "is_int32 (int32 x)"
  by (simp add: is_int32_def int32_def)

lemma int32_minus: "int32 (int32 a - b) = int32 (a - b)"
proof -
  have "(int32 a - b + 2147483648) mod 4294967296 = (a - b + 2147483648) mod 4294967296"
    by (simp add: int32_def algebra_simps mod_simps)
  then show ?thesis by (simp add: int32_def)
qed

subsection \<open>The second loop and the stream\<close>

lemma receipt_lines_cart: "cart (receipt_lines dbl items s) = cart s"
  by (induction items arbitrary: s) (simp_all add: Let_def)

lemma receipt_lines_customer: "customer (receipt_lines dbl items s) = customer s"
  by (induction items arbitrary: s) (simp_all add: Let_def)

text \<open>
  The stock after the second loop, in 32-bit arithmetic; and as an integer, where no
  subtraction of the loop overflows.
\<close>

lemma receipt_lines_quantity:
  assumes "is_int32 (quantity (products s p))"
  shows "quantity (products (receipt_lines dbl items s) p) =
           int32 (quantity (products s p) - requested p items)"
  using assms
proof (induction items arbitrary: s)
  case Nil
  then show ?case by (simp add: requested_def int32_id)
next
  case (Cons item rest)
  let ?s1 = "s\<lparr>cout := put [Str ''\<newline>'']
                 (put_double (price (products s (item_product item)) * dbl (item_quantity item))
                   (put [IntDec (item_quantity item), Str ''x '',
                         Str (name (products s (item_product item))), Str ''    '']
                     (cout s))),
              products := (products s)
                (item_product item :=
                   reduceQuantity (item_quantity item) (products s (item_product item)))\<rparr>"
  have step: "receipt_lines dbl (item # rest) s = receipt_lines dbl rest ?s1"
    by (simp add: Let_def)
  show ?case
  proof (cases "item_product item = p")
    case True
    then have q1: "quantity (products ?s1 p) = int32 (quantity (products s p) - item_quantity item)"
      by (simp add: reduceQuantity_def)
    then have "is_int32 (quantity (products ?s1 p))"
      by (simp add: is_int32_int32)
    from Cons.IH [OF this] q1 True show ?thesis
      by (simp only: step) (simp add: requested_def int32_minus algebra_simps)
  next
    case False
    then have q1: "quantity (products ?s1 p) = quantity (products s p)"
      by simp
    with Cons.prems have "is_int32 (quantity (products ?s1 p))"
      by simp
    from Cons.IH [OF this] q1 False show ?thesis
      by (simp only: step) (simp add: requested_def)
  qed
qed

lemma put_put: "put xs (put ys os) = put (ys @ xs) os"
  by (simp add: put_def)

lemma receipt_lines_cout: "\<exists>xs. cout (receipt_lines dbl items s) = put xs (cout s)"
proof (induction items arbitrary: s)
  case Nil
  have "cout s = put [] (cout s)" by (simp add: put_def)
  then show ?case by auto
next
  case (Cons item rest)
  show ?case
  proof -
    let ?s1 = "s\<lparr>cout := put [Str ''\<newline>'']
                 (put_double (price (products s (item_product item)) * dbl (item_quantity item))
                   (put [IntDec (item_quantity item), Str ''x '', Str (name (products s (item_product item))), Str ''    '']
                     (cout s))),
              products := (products s)
                (item_product item := reduceQuantity (item_quantity item) (products s (item_product item)))\<rparr>"
    obtain xs where "cout (receipt_lines dbl rest ?s1) = put xs (cout ?s1)"
      using Cons.IH by blast
    then have "\<exists>ys. cout (receipt_lines dbl rest ?s1) = put ys (cout s)"
      by (simp add: put_double_def put_put) blast
    then show ?thesis by (simp add: Let_def)
  qed
qed

lemma shipItems_loop_put:
  "\<exists>xs tw. shipItems_loop items (totalWeight, os) = (tw, put xs os)"
proof (induction items arbitrary: totalWeight os)
  case Nil
  have "os = put [] os" by (simp add: put_def)
  then show ?case by auto
next
  case (Cons x rest)
  obtain desc weight where x: "x = (desc, weight)" by (cases x)
  show ?case
  proof -
    obtain xs tw where "shipItems_loop rest (totalWeight + weight, put [Str ''\<newline>''] (put desc os)) = (tw, put xs (put [Str ''\<newline>''] (put desc os)))"
      using Cons.IH by blast
    then have "\<exists>ys tw. shipItems_loop rest (totalWeight + weight, put [Str ''\<newline>''] (put desc os)) = (tw, put ys os)"
      by (simp add: put_put) blast
    then show ?thesis by (simp add: x)
  qed
qed

lemma shipItems_format:
  "\<exists>xs. shipItems dbl items os = (put xs os)\<lparr>floatfield_of := fixed, precision := 1\<rparr>"
proof -
  obtain xs tw where
    "shipItems_loop items (dbl 0, put [Str ''** Shipment notice **\<newline>''] os) = (tw, put xs (put [Str ''** Shipment notice **\<newline>''] os))"
    using shipItems_loop_put by blast
  then have "shipItems dbl items os =
      (put (Str ''** Shipment notice **\<newline>'' # xs @ [Str ''Total package weight '', Dbl fixed 1 tw, Str ''kg\<newline>\<newline>'']) os)\<lparr>floatfield_of := fixed, precision := 1\<rparr>"
    by (simp add: shipItems_def put_def put_double_def set_fixed_def setprecision_def)
  then show ?thesis by blast
qed

subsection \<open>The first loop\<close>

text \<open>
  The loop returns exactly when every line passes its own two tests; nothing in it looks
  at two lines together.
\<close>

lemma checkout_lines_Inr_iff:
  "(\<exists>r. checkout_lines dbl now ps items acc = Inr r) \<longleftrightarrow> (\<forall>i\<in>set items. line_passes now ps i)"
  by (induction dbl now ps items acc rule: checkout_lines.induct)
     (auto simp: Let_def split: option.splits)

text \<open>
  The first line that fails decides the error, and expiry is tested before stock.
\<close>

lemma checkout_lines_expired:
  assumes "\<forall>i\<in>set pre. line_passes now ps i" and "isExpired now (ps (item_product item))"
  shows "checkout_lines dbl now ps (pre @ item # post) acc = Inl (ProductExpired (name (ps (item_product item))))"
  using assms
  by (induction dbl now ps pre acc rule: checkout_lines.induct)
     (cases acc; auto simp: Let_def split: option.splits)+

lemma checkout_lines_stock:
  assumes "\<forall>i\<in>set pre. line_passes now ps i" and "\<not> isExpired now (ps (item_product item))"
    and "item_quantity item > quantity (ps (item_product item))"
  shows "checkout_lines dbl now ps (pre @ item # post) acc = Inl (InsufficientStock (name (ps (item_product item))))"
  using assms
  by (induction dbl now ps pre acc rule: checkout_lines.induct)
     (cases acc; auto simp: Let_def split: option.splits)+

lemma checkout_lines_Inl_not_funds:
  "checkout_lines dbl now ps items acc = Inl e \<Longrightarrow> e \<noteq> InsufficientFunds \<and> e \<noteq> EmptyCart"
  by (induction dbl now ps items acc rule: checkout_lines.induct)
     (auto simp: Let_def split: if_splits option.splits)

lemma isShippable_getWeight: "isShippable p \<longleftrightarrow> getWeight p \<noteq> None"
  by (simp add: isShippable_def getWeight_def split: product_class.splits)

text \<open>
  What the loop computes when it returns, in the arithmetic of \<^verbatim>\<open>double\<close> whatever it is: the
  subtotal and the shipping cost are accumulated line by line, in the order of the cart.
\<close>

lemma checkout_lines_foldl:
  assumes "checkout_lines dbl now ps items (S0, H0, L0) = Inr (S, H, L)"
  shows "S = foldl (\<lambda>a i. a + price (ps (item_product i)) * dbl (item_quantity i)) S0 items \<and>
         H = foldl (\<lambda>a i. case getWeight (ps (item_product i)) of
                              Some w \<Rightarrow> a + w * dbl (item_quantity i) * dbl 10
                            | None \<Rightarrow> a) H0 items"
  using assms
proof (induction items arbitrary: S0 H0 L0)
  case Nil
  then show ?case by simp
next
  case (Cons item rest)
  let ?p = "ps (item_product item)"
  show ?case
  proof (cases "getWeight ?p")
    case None
    then have "\<not> isShippable ?p" by (simp add: isShippable_getWeight)
    with Cons.prems None Cons.IH show ?thesis
      by (simp add: Let_def split: if_splits)
  next
    case (Some w)
    then have "isShippable ?p" by (simp add: isShippable_getWeight)
    with Cons.prems Some Cons.IH show ?thesis
      by (simp add: Let_def split: if_splits)
  qed
qed

lemma checkout_lines_sums:
  assumes "checkout_lines dbl now ps items (dbl 0, dbl 0, []) = Inr (S, H, L)"
  shows "S = subtotal_of dbl ps items" and "H = shipping_of dbl ps items"
  using checkout_lines_foldl [OF assms] by (simp_all add: subtotal_of_def shipping_of_def)

text \<open>
  One shipment line per line of a shippable product: the notice is written exactly when
  the cart has such a line.
\<close>

lemma checkout_lines_shippingItems:
  assumes "checkout_lines dbl now ps items (S, H, L0) = Inr (S', H', L)"
  shows "length L = length L0 + length (filter (\<lambda>i. isShippable (ps (item_product i))) items)"
  using assms
proof (induction items arbitrary: S H L0)
  case Nil
  then show ?case by simp
next
  case (Cons item rest)
  then show ?case
    by (auto simp: Let_def isShippable_getWeight split: if_splits option.splits)
qed

subsection \<open>Checkout as a whole\<close>

lemma checkout_Throws: "checkout dbl now s = Throws e s' \<Longrightarrow> s' = s"
  by (auto simp: checkout_def Let_def split: if_splits sum.splits prod.splits)

lemma checkout_Returns:
  assumes "checkout dbl now s = Returns s'"
  shows "\<exists>shippingItems.
           checkout_lines dbl now (products s) (cart s) (dbl 0, dbl 0, []) =
             Inr (subtotal_of dbl (products s) (cart s), shipping_of dbl (products s) (cart s),
                  shippingItems) \<and>
           \<not> balance (customer s) <
               subtotal_of dbl (products s) (cart s) + shipping_of dbl (products s) (cart s) \<and>
           cart s \<noteq> [] \<and>
           cart s' = [] \<and>
           balance (customer s') =
             balance (customer s) -
               (subtotal_of dbl (products s) (cart s) + shipping_of dbl (products s) (cart s)) \<and>
           (\<forall>p. is_int32 (quantity (products s p)) \<longrightarrow>
                quantity (products s' p) =
                  int32 (quantity (products s p) - requested p (cart s)))"
proof -
  from assms obtain S H L where
    L: "checkout_lines dbl now (products s) (cart s) (dbl 0, dbl 0, []) = Inr (S, H, L)"
    by (auto simp: checkout_def Let_def split: if_splits sum.splits prod.splits)
  from checkout_lines_sums [OF L]
  have S: "S = subtotal_of dbl (products s) (cart s)"
    and H: "H = shipping_of dbl (products s) (cart s)" by simp_all
  from assms L show ?thesis
    unfolding S H
    by (auto simp: checkout_def Let_def isEmpty_def clear_def pay_def receipt_lines_cart
        receipt_lines_customer receipt_lines_quantity split: if_splits)
qed

text \<open>
  A successful checkout ends its output with the totals and the balance line. The totals
  are written under the formatting state left by the shipment notice (\<^verbatim>\<open>fixed\<close>, precision
  1) when there is one, and under the state the stream had at the call otherwise.
\<close>

lemma checkout_success:
  assumes "cart s \<noteq> []"
    and "checkout_lines dbl now (products s) (cart s) (dbl 0, dbl 0, []) = Inr (subtotal, shippingCost, shippingItems)"
    and "\<not> balance (customer s) < subtotal + shippingCost"
  shows "\<exists>s' pre. checkout dbl now s = Returns s' \<and>
           written (cout s') = written (cout s) @ pre @
             totals_block (if shippingItems = [] then floatfield_of (cout s) else fixed)
               (if shippingItems = [] then precision (cout s) else 1)
               subtotal shippingCost (subtotal + shippingCost)
               (balance (customer s) - (subtotal + shippingCost))"
proof (cases "shippingItems = []")
  case True
  let ?s2 = "s\<lparr>cout := put [Str ''** Checkout receipt **\<newline>''] (cout s)\<rparr>"
  obtain xs where xs: "cout (receipt_lines dbl (cart s) ?s2) = put xs (cout ?s2)"
    using receipt_lines_cout by blast
  show ?thesis using assms True xs
    by (simp add: checkout_def isEmpty_def Let_def clear_def pay_def showBalance_def
        receipt_lines_customer put_def put_double_def set_fixed_def setprecision_def totals_block_def)
next
  case False
  obtain ys where ys: "shipItems dbl shippingItems (cout s) = (put ys (cout s))\<lparr>floatfield_of := fixed, precision := 1\<rparr>"
    using shipItems_format by blast
  let ?s2 = "s\<lparr>cout := put [Str ''** Checkout receipt **\<newline>''] ((put ys (cout s))\<lparr>floatfield_of := fixed, precision := 1\<rparr>)\<rparr>"
  obtain xs where xs: "cout (receipt_lines dbl (cart s) ?s2) = put xs (cout ?s2)"
    using receipt_lines_cout by blast
  show ?thesis using assms False xs ys
    by (simp add: checkout_def isEmpty_def Let_def clear_def pay_def showBalance_def
        receipt_lines_customer put_def put_double_def set_fixed_def setprecision_def totals_block_def)
qed

text \<open>
  A checkout of a non-empty cart whose lines all pass, with a balance that is not below
  the total as the loop computes it, returns.
\<close>

lemma checkout_passes:
  assumes "cart s \<noteq> []"
    and "\<forall>i\<in>set (cart s). line_passes now (products s) i"
    and "\<not> balance (customer s) <
           subtotal_of dbl (products s) (cart s) + shipping_of dbl (products s) (cart s)"
  shows "\<exists>s' f n pre.
           checkout dbl now s = Returns s' \<and>
           written (cout s') = written (cout s) @ pre @
             totals_block f n
               (subtotal_of dbl (products s) (cart s)) (shipping_of dbl (products s) (cart s))
               (subtotal_of dbl (products s) (cart s) + shipping_of dbl (products s) (cart s))
               (balance (customer s) -
                  (subtotal_of dbl (products s) (cart s) + shipping_of dbl (products s) (cart s)))"
proof -
  from assms(2) obtain r where
    "checkout_lines dbl now (products s) (cart s) (dbl 0, dbl 0, []) = Inr r"
    using checkout_lines_Inr_iff [of dbl now "products s" "cart s" "(dbl 0, dbl 0, [])"]
    by blast
  then obtain S H L where
    L: "checkout_lines dbl now (products s) (cart s) (dbl 0, dbl 0, []) = Inr (S, H, L)"
    by (cases r) auto
  from checkout_lines_sums [OF L]
  have S: "S = subtotal_of dbl (products s) (cart s)"
    and H: "H = shipping_of dbl (products s) (cart s)" by simp_all
  from checkout_success [OF assms(1) L [unfolded S H] assms(3)]
  show ?thesis by blast
qed

text \<open>
  Stock stays non-negative where the lines of the cart, taken together, ask no more of a
  product than it has (and the difference is an \<^verbatim>\<open>int\<close>); a cart whose lines point to
  different products asks of each product the quantity of its one line.
\<close>

lemma checkout_stock_nonneg:
  assumes "checkout dbl now s = Returns s'"
    and "is_int32 (quantity (products s p))"
    and "is_int32 (quantity (products s p) - requested p (cart s))"
    and "requested p (cart s) \<le> quantity (products s p)"
  shows "0 \<le> quantity (products s' p)"
  using checkout_Returns [OF assms(1)] assms(2-4) by (auto simp: int32_id)

lemma requested_one_line:
  assumes "distinct (map item_product items)" and "i \<in> set items"
  shows "requested (item_product i) items = item_quantity i"
  using assms
proof (induction items)
  case Nil
  then show ?case by simp
next
  case (Cons x xs)
  have nil: "\<And>p. p \<notin> item_product ` set xs \<Longrightarrow> filter (\<lambda>j. item_product j = p) xs = []"
    by (auto simp: filter_empty_conv)
  show ?case
  proof (cases "i = x")
    case True
    with Cons.prems nil [of "item_product x"] show ?thesis by (simp add: requested_def)
  next
    case False
    with Cons.prems have "i \<in> set xs" and "item_product x \<noteq> item_product i"
      by auto
    with Cons show ?thesis by (simp add: requested_def)
  qed
qed

subsection \<open>Carts built by \<^verbatim>\<open>Cart::add\<close>\<close>

lemma add_all_products: "products (add_all ops s) = products s"
proof (induction ops arbitrary: s)
  case Nil
  then show ?case by simp
next
  case (Cons x ops)
  obtain p q where x: "x = (p, q)" by (cases x)
  show ?case by (simp add: x Cons.IH add_def)
qed

lemma add_all_within_stock:
  assumes "\<forall>i\<in>set (cart s). item_quantity i \<le> quantity (products s (item_product i))"
  shows "\<forall>i\<in>set (cart (add_all ops s)). item_quantity i \<le> quantity (products s (item_product i))"
  using assms
proof (induction ops arbitrary: s)
  case Nil
  then show ?case by simp
next
  case (Cons x ops)
  obtain p q where x: "x = (p, q)" by (cases x)
  let ?s1 = "state_of (add p q s)"
  have ps: "products ?s1 = products s" by (simp add: add_def)
  have "\<forall>i\<in>set (cart ?s1). item_quantity i \<le> quantity (products ?s1 (item_product i))"
    using Cons.prems by (auto simp: add_def)
  from Cons.IH [OF this] show ?case by (simp add: x ps)
qed

subsection \<open>Overflow-free carts\<close>

text \<open>
  Where no line has a negative quantity, the stock only goes down: if the stock before
  and the stock less all the lines are 32-bit values, so is the stock after any first
  lines, and no subtraction of the second loop overflows.
\<close>

lemma requested_take_bounds:
  assumes "\<forall>i\<in>set items. 0 \<le> item_quantity i"
  shows "0 \<le> requested p (take k items) \<and> requested p (take k items) \<le> requested p items"
  using assms
proof (induction items arbitrary: k)
  case Nil
  then show ?case by (simp add: requested_def)
next
  case (Cons x xs)
  then have IH: "\<And>k. 0 \<le> requested p (take k xs) \<and> requested p (take k xs) \<le> requested p xs"
    and x: "0 \<le> item_quantity x"
    by simp_all
  have all: "0 \<le> requested p xs" using IH [of "length xs"] by simp
  show ?case
  proof (cases k)
    case 0
    with x all show ?thesis by (simp add: requested_def)
  next
    case (Suc j)
    with x IH [of j] show ?thesis by (simp add: requested_def)
  qed
qed

lemma no_overflow_nonneg_lines:
  assumes "\<forall>i\<in>set items. 0 \<le> item_quantity i"
    and "is_int32 q" and "is_int32 (q - requested p items)"
  shows "is_int32 (q - requested p (take k items))"
  using requested_take_bounds [OF assms(1), of p k] assms(2,3)
  by (simp add: is_int32_def)

subsection \<open>The run of \<^verbatim>\<open>main\<close>\<close>

text \<open>
  The checkout of \<^verbatim>\<open>main\<close>, computed: the state it returns, the sums of its cart, and the
  checkout of one TV, which the balance does not cover.
\<close>

lemma main_checkout:
  "checkout double_of_int 0 (main_init 0\<lparr>cart := main_cart\<rparr>) =
     Returns
       \<lparr>products =
          (\<lambda>a. \<lparr>name = ''Scratch Card'', price = Finite 50, quantity = 100, dyn_class = Product\<rparr>)
            (2 := \<lparr>name = ''TV'', price = Finite 5000, quantity = 3,
                     dyn_class = ShippableProduct (Finite 10)\<rparr>,
             0 := \<lparr>name = ''Cheese'', price = Finite 100, quantity = 9,
                     dyn_class = ExpirableShippableProduct 86400
                       (Finite (3602879701896397 / 18014398509481984))\<rparr>,
             1 := \<lparr>name = ''Biscuits'', price = Finite 150, quantity = 4,
                     dyn_class = ExpirableShippableProduct 86400
                       (Finite (3152519739159347 / 4503599627370496))\<rparr>,
             3 := \<lparr>name = ''Scratch Card'', price = Finite 50, quantity = 99,
                     dyn_class = Product\<rparr>),
        customer = \<lparr>customer_name = ''Ibrahim'', balance = Finite 691\<rparr>,
        cart = [],
        cout =
          \<lparr>floatfield_of = fixed, precision = 2,
           written =
             [Str ''** Shipment notice **\<newline>'',
              IntDec 1, Str ''x '', Str ''Cheese'', Str ''    '', TruncDec (Finite 200),
              Str ''g'', Str ''\<newline>'',
              IntDec 1, Str ''x '', Str ''Biscuits'', Str ''    '', TruncDec (Finite 700),
              Str ''g'', Str ''\<newline>'',
              Str ''Total package weight '',
              Dbl fixed 1 (Finite (2026619832316723 / 2251799813685248)), Str ''kg\<newline>\<newline>'',
              Str ''** Checkout receipt **\<newline>'',
              IntDec 1, Str ''x '', Str ''Cheese'', Str ''    '', Dbl fixed 1 (Finite 100),
              Str ''\<newline>'',
              IntDec 1, Str ''x '', Str ''Biscuits'', Str ''    '', Dbl fixed 1 (Finite 150),
              Str ''\<newline>'',
              IntDec 1, Str ''x '', Str ''Scratch Card'', Str ''    '', Dbl fixed 1 (Finite 50),
              Str ''\<newline>'',
              Str ''----------------------\<newline>'',
              Str ''Subtotal         '', Dbl fixed 1 (Finite 300), Str ''\<newline>'',
              Str ''Shipping         '', Dbl fixed 1 (Finite 9), Str ''\<newline>'',
              Str ''Amount           '', Dbl fixed 1 (Finite 309), Str ''\<newline>\<newline>'',
              Str ''Customer Balance: '', Dbl fixed 2 (Finite 691), Str ''\<newline>'']\<rparr>\<rparr>"
  by (simp add: model_defs main_defs double_eval)

lemma main_sums:
  "subtotal_of double_of_int (main_products 86400) main_cart = Finite 300"
  "shipping_of double_of_int (main_products 86400) main_cart = Finite 9"
  by (simp_all add: subtotal_of_def shipping_of_def main_defs getWeight_def double_eval)

lemma main_funds:
  "checkout double_of_int 0 (main_init 0\<lparr>cart := [\<lparr>item_product = 2, item_quantity = 1\<rparr>]\<rparr>) =
     Throws InsufficientFunds (main_init 0\<lparr>cart := [\<lparr>item_product = 2, item_quantity = 1\<rparr>]\<rparr>)"
  by (simp add: model_defs main_defs double_eval)

section \<open>The claims\<close>

text \<open>
  C1. Whatever the error, a checkout that throws leaves the state as it was at the call:
  no product, no balance and no cart line is changed. A checkout that returns has charged
  the customer the full total of the cart: the new balance is the old one minus
  \<open>subtotal_of + shipping_of\<close>, the sums over all the lines of the cart, computed in the
  arithmetic of \<^verbatim>\<open>double\<close>. It has emptied the cart. And it has taken from every product
  the quantities of the lines that point to it (one line, its quantity; several lines to
  one product, their sum), provided that no subtraction overflows the 32-bit \<^verbatim>\<open>int\<close>:
  the stock less the quantities of any first \<open>k\<close> lines is a 32-bit value.
\<close>

theorem C1_all_or_nothing:
  "(checkout dbl now s = Throws e s' \<longrightarrow>
      products s' = products s \<and> customer s' = customer s \<and> cart s' = cart s) \<and>
   (checkout dbl now s = Returns s' \<longrightarrow>
      (\<forall>p. (\<forall>k. is_int32 (quantity (products s p) - requested p (take k (cart s)))) \<longrightarrow>
           quantity (products s' p) = quantity (products s p) - requested p (cart s)) \<and>
      balance (customer s') =
        balance (customer s) -
          (subtotal_of dbl (products s) (cart s) + shipping_of dbl (products s) (cart s)) \<and>
      cart s' = [])"
proof (intro conjI impI allI)
  assume "checkout dbl now s = Throws e s'"
  then have "s' = s" by (rule checkout_Throws)
  then show "products s' = products s" and "customer s' = customer s" and "cart s' = cart s"
    by simp_all
next
  assume r: "checkout dbl now s = Returns s'"
  from checkout_Returns [OF r]
  show "balance (customer s') =
        balance (customer s) -
          (subtotal_of dbl (products s) (cart s) + shipping_of dbl (products s) (cart s))"
    and "cart s' = []"
    by blast+
next
  fix p
  assume r: "checkout dbl now s = Returns s'"
    and no: "\<forall>k. is_int32 (quantity (products s p) - requested p (take k (cart s)))"
  from no [rule_format, of 0] have q0: "is_int32 (quantity (products s p))"
    by (simp add: requested_def)
  from no [rule_format, of "length (cart s)"]
  have q1: "is_int32 (quantity (products s p) - requested p (cart s))"
    by simp
  from checkout_Returns [OF r] q0
  have "quantity (products s' p) = int32 (quantity (products s p) - requested p (cart s))"
    by blast
  with q1 show "quantity (products s' p) = quantity (products s p) - requested p (cart s)"
    by (simp add: int32_id)
qed

theorem C1_all_or_nothing_witness:
  "checkout double_of_int 0 (main_init 0\<lparr>cart := main_cart\<rparr>) =
     Returns (state_of (checkout double_of_int 0 (main_init 0\<lparr>cart := main_cart\<rparr>))) \<and>
   subtotal_of double_of_int (main_products 86400) main_cart = Finite 300 \<and>
   shipping_of double_of_int (main_products 86400) main_cart = Finite 9 \<and>
   balance (customer (state_of (checkout double_of_int 0 (main_init 0\<lparr>cart := main_cart\<rparr>)))) =
     Finite 691 \<and>
   map (\<lambda>p. quantity (products (state_of (checkout double_of_int 0 (main_init 0\<lparr>cart := main_cart\<rparr>))) p))
     [0, 1, 2, 3] = [10 - 1, 5 - 1, 3 - 0, 100 - 1] \<and>
   cart (state_of (checkout double_of_int 0 (main_init 0\<lparr>cart := main_cart\<rparr>))) = [] \<and>
   checkout double_of_int 0 (main_init 0\<lparr>cart := [\<lparr>item_product = 2, item_quantity = 1\<rparr>]\<rparr>) =
     Throws InsufficientFunds (main_init 0\<lparr>cart := [\<lparr>item_product = 2, item_quantity = 1\<rparr>]\<rparr>) \<and>
   products (main_init 0\<lparr>cart := [\<lparr>item_product = 2, item_quantity = 1\<rparr>]\<rparr>) = products (main_init 0)"
proof -
  let ?s = "main_init 0\<lparr>cart := main_cart\<rparr>"
  let ?s' = "state_of (checkout double_of_int 0 ?s)"
  let ?t = "main_init 0\<lparr>cart := [\<lparr>item_product = 2, item_quantity = 1\<rparr>]\<rparr>"
  have r: "checkout double_of_int 0 ?s = Returns ?s'"
    by (simp add: main_checkout)
  have lines: "\<forall>i\<in>set (cart ?s). 0 \<le> item_quantity i"
    by (simp add: main_cart_def)
  have req: "map (\<lambda>p. requested p (cart ?s)) [0, 1, 2, 3] = [1, 1, 0, 1]"
    by (simp add: requested_def main_cart_def)
  have q0: "map (\<lambda>p. quantity (products ?s p)) [0, 1, 2, 3] = [10, 5, 3, 100]"
    by (simp add: main_defs)
  have no: "\<forall>k. is_int32 (quantity (products ?s p) - requested p (take k (cart ?s)))"
    if "p \<in> {0, 1, 2, 3}" for p
  proof
    fix k
    from that req q0 have "is_int32 (quantity (products ?s p))"
      and "is_int32 (quantity (products ?s p) - requested p (cart ?s))"
      by (auto simp: is_int32_def)
    with lines show "is_int32 (quantity (products ?s p) - requested p (take k (cart ?s)))"
      by (rule no_overflow_nonneg_lines)
  qed
  have sums: "subtotal_of double_of_int (products ?s) (cart ?s) = Finite 300"
    "shipping_of double_of_int (products ?s) (cart ?s) = Finite 9"
    using main_sums by (simp_all add: main_init_values)
  have bal: "balance (customer ?s) = Finite 1000"
    by (simp add: main_init_values)
  have sub: "Finite 1000 - (Finite 300 + Finite 9) = Finite 691"
    by (simp add: double_eval)
  from C1_all_or_nothing [of double_of_int 0 ?s InsufficientFunds ?s']
    C1_all_or_nothing [of double_of_int 0 ?t InsufficientFunds ?t]
    r main_funds no [of 0] no [of 1] no [of 2] no [of 3] req q0 sums bal sub main_sums
  show ?thesis by simp
qed

text \<open>
  C2. The stock of a product is meant never to be negative. The code tests each line
  against the stock on its own (\<open>checkout_lines_Inr_iff\<close>) and then lets every line
  reduce it. With the products and the customer of \<^verbatim>\<open>main\<close>: biscuits have 5 in stock; two
  calls \<^verbatim>\<open>cart.add(biscuits, 3)\<close> return, the checkout returns (total 942 of a balance of
  1000), and the biscuits are left with a stock of \<open>- 1\<close>.
\<close>

theorem C2_stock_goes_negative:
  "0 \<le> quantity (products (main_init 0) 1) \<and>
   add 1 3 (main_init 0) =
     Returns (main_init 0\<lparr>cart := [\<lparr>item_product = 1, item_quantity = 3\<rparr>]\<rparr>) \<and>
   add 1 3 (main_init 0\<lparr>cart := [\<lparr>item_product = 1, item_quantity = 3\<rparr>]\<rparr>) =
     Returns (main_init 0\<lparr>cart := [\<lparr>item_product = 1, item_quantity = 3\<rparr>,
                                   \<lparr>item_product = 1, item_quantity = 3\<rparr>]\<rparr>) \<and>
   (case checkout double_of_int 0
           (main_init 0\<lparr>cart := [\<lparr>item_product = 1, item_quantity = 3\<rparr>,
                                  \<lparr>item_product = 1, item_quantity = 3\<rparr>]\<rparr>) of
      Returns s \<Rightarrow> quantity (products s 1) = - 1
    | Throws e s \<Rightarrow> False)"
  by (simp add: model_defs main_defs double_eval)

text \<open>
  C3 as stated fails, by rounding. Three lines of one piece each, priced \<^verbatim>\<open>0.7\<close>, \<^verbatim>\<open>2.2\<close>
  and \<^verbatim>\<open>0.7\<close>, none expired, each in stock, none shippable, and a balance of \<^verbatim>\<open>3.6\<close>: the
  sum of the three prices is exactly the balance, so the cart is affordable. The loop adds
  \<open>0.7 + 2.2\<close>, which rounds up, and then \<open>0.7\<close>: its subtotal is
  \<open>3.6000000000000005\<close>, above the balance, and the checkout throws
  \<open>InsufficientFunds\<close>.
\<close>

theorem C3_counterexample:
  "cart rounding_state \<noteq> [] \<and>
   list_all (line_passes 0 (products rounding_state)) (cart rounding_state) \<and>
   balance (customer rounding_state) = Finite (8106479329266893 / 2251799813685248) \<and>
   exact_subtotal (products rounding_state) (cart rounding_state) +
     exact_shipping (products rounding_state) (cart rounding_state) \<le>
       valof (balance (customer rounding_state)) \<and>
   subtotal_of double_of_int (products rounding_state) (cart rounding_state) =
     Finite (4053239664633447 / 1125899906842624) \<and>
   checkout double_of_int 0 rounding_state = Throws InsufficientFunds rounding_state"
proof -
  have prices:
    "round_double (7 / 10) = Finite (3152519739159347 / 4503599627370496)"
    "round_double (22 / 10) = Finite (2476979795053773 / 1125899906842624)"
    "round_double (36 / 10) = Finite (8106479329266893 / 2251799813685248)"
    by (simp_all add: double_eval)
  have sub: "subtotal_of double_of_int (products rounding_state) (cart rounding_state) =
      Finite (4053239664633447 / 1125899906842624)"
    by (simp add: subtotal_of_def rounding_state_def prices) (simp add: double_eval)
  have thr: "checkout double_of_int 0 rounding_state = Throws InsufficientFunds rounding_state"
    by (simp add: model_defs rounding_state_def prices) (simp add: double_eval)
  have ex: "exact_subtotal (products rounding_state) (cart rounding_state) +
     exact_shipping (products rounding_state) (cart rounding_state) \<le>
       valof (balance (customer rounding_state))"
    by (simp add: exact_subtotal_def exact_shipping_def rounding_state_def isShippable_def
        double_eval)
  have ne: "cart rounding_state \<noteq> []"
    by (simp add: rounding_state_def)
  have pass: "list_all (line_passes 0 (products rounding_state)) (cart rounding_state)"
    by (simp add: rounding_state_def isExpired_def)
  have bal: "balance (customer rounding_state) = Finite (8106479329266893 / 2251799813685248)"
    by (simp add: rounding_state_def double_eval)
  from ne pass bal ex sub thr show ?thesis
    by (intro conjI)
qed

text \<open>
  C3, amended. A checkout of a non-empty cart whose lines are all unexpired and each
  within the present stock, with a balance that is not below the total as \<^verbatim>\<open>double\<close>
  arithmetic gives it, returns. The subtotal it writes is \<open>subtotal_of\<close>: \<open>price * quantity\<close>
  added up from 0 over the lines in the order of the cart. The shipping cost is
  \<open>shipping_of\<close>: \<open>weight * quantity * 10\<close> added up likewise over the lines of shippable
  products. The balance afterwards is the balance before minus their sum. Every operation
  is one rounded operation of \<^verbatim>\<open>double\<close>; the statement holds for any arithmetic.
\<close>

theorem C3_totals:
  assumes "cart s \<noteq> []"
    and "\<forall>i\<in>set (cart s). line_passes now (products s) i"
    and "\<not> balance (customer s) <
           subtotal_of dbl (products s) (cart s) + shipping_of dbl (products s) (cart s)"
  shows "\<exists>s' f n pre.
           checkout dbl now s = Returns s' \<and>
           balance (customer s') =
             balance (customer s) -
               (subtotal_of dbl (products s) (cart s) + shipping_of dbl (products s) (cart s)) \<and>
           written (cout s') = written (cout s) @ pre @
             totals_block f n
               (subtotal_of dbl (products s) (cart s)) (shipping_of dbl (products s) (cart s))
               (subtotal_of dbl (products s) (cart s) + shipping_of dbl (products s) (cart s))
               (balance (customer s) -
                  (subtotal_of dbl (products s) (cart s) + shipping_of dbl (products s) (cart s)))"
proof -
  from checkout_passes [OF assms] obtain s' f n pre where
    r: "checkout dbl now s = Returns s'" and
    w: "written (cout s') = written (cout s) @ pre @
             totals_block f n
               (subtotal_of dbl (products s) (cart s)) (shipping_of dbl (products s) (cart s))
               (subtotal_of dbl (products s) (cart s) + shipping_of dbl (products s) (cart s))
               (balance (customer s) -
                  (subtotal_of dbl (products s) (cart s) + shipping_of dbl (products s) (cart s)))"
    by blast
  from checkout_Returns [OF r]
  have "balance (customer s') =
             balance (customer s) -
               (subtotal_of dbl (products s) (cart s) + shipping_of dbl (products s) (cart s))"
    by blast
  with r w show ?thesis by blast
qed

theorem C3_totals_witness:
  "cart (main_init 0\<lparr>cart := main_cart\<rparr>) \<noteq> [] \<and>
   list_all (line_passes 0 (main_products 86400)) main_cart \<and>
   subtotal_of double_of_int (main_products 86400) main_cart = Finite 300 \<and>
   shipping_of double_of_int (main_products 86400) main_cart = Finite 9 \<and>
   \<not> balance (customer (main_init 0)) < Finite 300 + Finite 9 \<and>
   (\<exists>s' f n pre.
      checkout double_of_int 0 (main_init 0\<lparr>cart := main_cart\<rparr>) = Returns s' \<and>
      balance (customer s') = Finite 691 \<and>
      written (cout s') = pre @ totals_block f n (Finite 300) (Finite 9) (Finite 309) (Finite 691))"
proof -
  let ?s = "main_init 0\<lparr>cart := main_cart\<rparr>"
  have 1: "cart ?s \<noteq> []" by (simp add: main_cart_def)
  have 2: "\<forall>i\<in>set (cart ?s). line_passes 0 (products ?s) i"
    by (simp add: main_defs isExpired_def)
  have ar: "Finite 300 + Finite 9 = Finite 309" "Finite 1000 - Finite 309 = Finite 691"
    "\<not> Finite 1000 < Finite 309"
    by (simp_all add: double_eval)
  have 3: "\<not> balance (customer ?s) <
      subtotal_of double_of_int (products ?s) (cart ?s) +
      shipping_of double_of_int (products ?s) (cart ?s)"
    by (simp add: main_sums ar main_init_values)
  from C3_totals [OF 1 2 3] 1 2 show ?thesis
    by (simp add: main_sums ar main_init_values list_all_iff)
qed

text \<open>
  C4. \<^verbatim>\<open>Cart::add\<close> throws \<open>InsufficientStock\<close> exactly when the quantity exceeds the stock
  of the product at the call, and then the state, the cart in it, is as before; otherwise
  it returns with one line appended to the cart and the products as they were.
\<close>

theorem C4_add:
  "(qty > quantity (products s p) \<longrightarrow>
      add p qty s = Throws (InsufficientStock (name (products s p))) s) \<and>
   (\<not> qty > quantity (products s p) \<longrightarrow>
      add p qty s = Returns (s\<lparr>cart := cart s @ [\<lparr>item_product = p, item_quantity = qty\<rparr>]\<rparr>) \<and>
      products (s\<lparr>cart := cart s @ [\<lparr>item_product = p, item_quantity = qty\<rparr>]\<rparr>) = products s)"
  by (simp add: add_def)

theorem C4_add_witness:
  "(4::int) > quantity (products (main_init 0) 2) \<and>
   add 2 4 (main_init 0) = Throws (InsufficientStock ''TV'') (main_init 0) \<and>
   \<not> (3::int) > quantity (products (main_init 0) 2) \<and>
   add 2 3 (main_init 0) =
     Returns (main_init 0\<lparr>cart := [\<lparr>item_product = 2, item_quantity = 3\<rparr>]\<rparr>)"
  using C4_add [where qty = 4 and s = "main_init 0" and p = 2]
    C4_add [where qty = 3 and s = "main_init 0" and p = 2]
  by (simp add: main_defs)

text \<open>
  C5. Lines are validated in the order of the cart and the first failing test decides
  the error. If the lines before \<open>item\<close> all pass and \<open>item\<close> is expired, the checkout
  throws \<open>ProductExpired\<close> for it, whether or not its stock suffices (expiry comes before
  stock); if \<open>item\<close> is not expired and exceeds the stock, the checkout throws
  \<open>InsufficientStock\<close> for it. Both hold whatever the lines after \<open>item\<close> and whatever the
  balance: no later line is examined and a lack of funds is not reported.
  \<open>InsufficientFunds\<close> is thrown only when every line has passed.
\<close>

theorem C5_first_error_wins:
  "(cart s = pre @ item # post \<and> (\<forall>i\<in>set pre. line_passes now (products s) i) \<and>
      isExpired now (products s (item_product item)) \<longrightarrow>
        checkout dbl now s = Throws (ProductExpired (name (products s (item_product item)))) s) \<and>
   (cart s = pre @ item # post \<and> (\<forall>i\<in>set pre. line_passes now (products s) i) \<and>
      \<not> isExpired now (products s (item_product item)) \<and>
      item_quantity item > quantity (products s (item_product item)) \<longrightarrow>
        checkout dbl now s = Throws (InsufficientStock (name (products s (item_product item)))) s) \<and>
   (checkout dbl now s = Throws InsufficientFunds s' \<longrightarrow>
      (\<forall>i\<in>set (cart s). line_passes now (products s) i))"
proof (intro conjI impI)
  assume a: "cart s = pre @ item # post \<and> (\<forall>i\<in>set pre. line_passes now (products s) i) \<and>
      isExpired now (products s (item_product item))"
  then have "checkout_lines dbl now (products s) (cart s) (dbl 0, dbl 0, []) =
      Inl (ProductExpired (name (products s (item_product item))))"
    by (simp add: checkout_lines_expired)
  with a show "checkout dbl now s = Throws (ProductExpired (name (products s (item_product item)))) s"
    by (simp add: checkout_def isEmpty_def)
next
  assume a: "cart s = pre @ item # post \<and> (\<forall>i\<in>set pre. line_passes now (products s) i) \<and>
      \<not> isExpired now (products s (item_product item)) \<and>
      item_quantity item > quantity (products s (item_product item))"
  then have "checkout_lines dbl now (products s) (cart s) (dbl 0, dbl 0, []) =
      Inl (InsufficientStock (name (products s (item_product item))))"
    by (simp add: checkout_lines_stock)
  with a show "checkout dbl now s = Throws (InsufficientStock (name (products s (item_product item)))) s"
    by (simp add: checkout_def isEmpty_def)
next
  assume "checkout dbl now s = Throws InsufficientFunds s'"
  then have "\<exists>r. checkout_lines dbl now (products s) (cart s) (dbl 0, dbl 0, []) = Inr r"
    by (auto simp: checkout_def Let_def split: if_splits sum.splits prod.splits
        dest: checkout_lines_Inl_not_funds)
  then show "\<forall>i\<in>set (cart s). line_passes now (products s) i"
    by (simp only: checkout_lines_Inr_iff)
qed

theorem C5_first_error_wins_witness:
  "checkout double_of_int 100000
     (main_init 0\<lparr>cart := [\<lparr>item_product = 3, item_quantity = 1\<rparr>,
                            \<lparr>item_product = 1, item_quantity = 9\<rparr>,
                            \<lparr>item_product = 2, item_quantity = 4\<rparr>]\<rparr>) =
     Throws (ProductExpired ''Biscuits'')
       (main_init 0\<lparr>cart := [\<lparr>item_product = 3, item_quantity = 1\<rparr>,
                              \<lparr>item_product = 1, item_quantity = 9\<rparr>,
                              \<lparr>item_product = 2, item_quantity = 4\<rparr>]\<rparr>) \<and>
   checkout double_of_int 100000
     (main_init 0\<lparr>cart := [\<lparr>item_product = 3, item_quantity = 1\<rparr>,
                            \<lparr>item_product = 2, item_quantity = 4\<rparr>,
                            \<lparr>item_product = 1, item_quantity = 9\<rparr>]\<rparr>) =
     Throws (InsufficientStock ''TV'')
       (main_init 0\<lparr>cart := [\<lparr>item_product = 3, item_quantity = 1\<rparr>,
                              \<lparr>item_product = 2, item_quantity = 4\<rparr>,
                              \<lparr>item_product = 1, item_quantity = 9\<rparr>]\<rparr>) \<and>
   checkout double_of_int 0 (main_init 0\<lparr>cart := [\<lparr>item_product = 2, item_quantity = 1\<rparr>]\<rparr>) =
     Throws InsufficientFunds (main_init 0\<lparr>cart := [\<lparr>item_product = 2, item_quantity = 1\<rparr>]\<rparr>) \<and>
   list_all (line_passes 0 (main_products 86400)) [\<lparr>item_product = 2, item_quantity = 1\<rparr>]"
proof -
  let ?ok = "\<lparr>item_product = 3, item_quantity = 1\<rparr>"
  let ?bis = "\<lparr>item_product = 1, item_quantity = 9\<rparr>"
  let ?tv = "\<lparr>item_product = 2, item_quantity = 4\<rparr>"
  let ?tv1 = "\<lparr>item_product = 2, item_quantity = 1\<rparr>"
  have funds: "checkout double_of_int 0 (main_init 0\<lparr>cart := [?tv1]\<rparr>) =
      Throws InsufficientFunds (main_init 0\<lparr>cart := [?tv1]\<rparr>)"
    by (rule main_funds)
  from
    C5_first_error_wins [where s = "main_init 0\<lparr>cart := [?ok, ?bis, ?tv]\<rparr>" and pre = "[?ok]"
      and item = ?bis and post = "[?tv]" and now = 100000 and dbl = double_of_int]
    C5_first_error_wins [where s = "main_init 0\<lparr>cart := [?ok, ?tv, ?bis]\<rparr>" and pre = "[?ok]"
      and item = ?tv and post = "[?bis]" and now = 100000 and dbl = double_of_int]
    C5_first_error_wins [where s = "main_init 0\<lparr>cart := [?tv1]\<rparr>" and now = 0
      and dbl = double_of_int and s' = "main_init 0\<lparr>cart := [?tv1]\<rparr>"]
    funds
  show ?thesis
    by (simp add: main_init_values main_products_values isExpired_def)
qed

text \<open>
  C6. A checkout on a cart with no line throws \<open>EmptyCart\<close>, whatever the customer, the
  products, the clock and the stream are, and the state at the throw is the state at the
  call: nothing was validated, written or changed before.
\<close>

theorem C6_empty_cart:
  "checkout dbl now (s\<lparr>cart := []\<rparr>) = Throws EmptyCart (s\<lparr>cart := []\<rparr>)"
  by (simp add: checkout_def isEmpty_def)

text \<open>
  C7. After a checkout that returned, a second checkout of the same cart, at any later
  time, throws \<open>EmptyCart\<close>: the first one cleared the cart.
\<close>

theorem C7_second_checkout:
  assumes "checkout dbl now s = Returns s'"
  shows "checkout dbl now' s' = Throws EmptyCart s'"
proof -
  from checkout_Returns [OF assms] have "cart s' = []" by blast
  then show ?thesis by (simp add: checkout_def isEmpty_def)
qed

theorem C7_second_checkout_witness:
  "checkout double_of_int 0 (main_init 0\<lparr>cart := main_cart\<rparr>) =
     Returns (state_of (checkout double_of_int 0 (main_init 0\<lparr>cart := main_cart\<rparr>))) \<and>
   checkout double_of_int 5 (state_of (checkout double_of_int 0 (main_init 0\<lparr>cart := main_cart\<rparr>))) =
     Throws EmptyCart (state_of (checkout double_of_int 0 (main_init 0\<lparr>cart := main_cart\<rparr>)))"
proof -
  let ?s = "main_init 0\<lparr>cart := main_cart\<rparr>"
  have r: "checkout double_of_int 0 ?s = Returns (state_of (checkout double_of_int 0 ?s))"
    by (simp add: main_checkout)
  from r C7_second_checkout [OF r, of 5] show ?thesis by simp
qed

text \<open>
  C8. The receipt is meant to show subtotal, shipping and amount with two decimals. The
  code writes them without setting the format, so they take the state the stream is in.
  In the run of \<^verbatim>\<open>main\<close> itself the shipment notice has left \<^verbatim>\<open>fixed\<close> with precision 1:
  every amount of the receipt is written with one decimal, and only the balance line,
  where \<^verbatim>\<open>showBalance\<close> sets precision 2, has two.
\<close>

theorem C8_receipt_after_notice:
  "(case main 0 of
      Returns s \<Rightarrow>
        written (cout s) =
          [Str ''** Shipment notice **\<newline>'',
           IntDec 1, Str ''x '', Str ''Cheese'', Str ''    '', TruncDec (Finite 200), Str ''g'',
           Str ''\<newline>'',
           IntDec 1, Str ''x '', Str ''Biscuits'', Str ''    '', TruncDec (Finite 700), Str ''g'',
           Str ''\<newline>'',
           Str ''Total package weight '',
           Dbl fixed 1 (Finite (2026619832316723 / 2251799813685248)), Str ''kg\<newline>\<newline>'',
           Str ''** Checkout receipt **\<newline>'',
           IntDec 1, Str ''x '', Str ''Cheese'', Str ''    '', Dbl fixed 1 (Finite 100),
           Str ''\<newline>'',
           IntDec 1, Str ''x '', Str ''Biscuits'', Str ''    '', Dbl fixed 1 (Finite 150),
           Str ''\<newline>'',
           IntDec 1, Str ''x '', Str ''Scratch Card'', Str ''    '', Dbl fixed 1 (Finite 50),
           Str ''\<newline>'',
           Str ''----------------------\<newline>'',
           Str ''Subtotal         '', Dbl fixed 1 (Finite 300), Str ''\<newline>'',
           Str ''Shipping         '', Dbl fixed 1 (Finite 9), Str ''\<newline>'',
           Str ''Amount           '', Dbl fixed 1 (Finite 309), Str ''\<newline>\<newline>'',
           Str ''Customer Balance: '', Dbl fixed 2 (Finite 691), Str ''\<newline>'']
    | Throws e s \<Rightarrow> False)"
proof -
  have "and_then (and_then (add 0 1 (main_init 0)) (add 1 1)) (add 3 1) =
      Returns (main_init 0\<lparr>cart := main_cart\<rparr>)"
    by (simp add: add_def and_then_def main_init_values main_products_values main_cart_def)
  then have "main 0 = checkout double_of_int 0 (main_init 0\<lparr>cart := main_cart\<rparr>)"
    by (simp add: main_def and_then_def)
  then show ?thesis
    by (simp add: main_checkout)
qed

text \<open>
  C9 as stated fails: \<^verbatim>\<open>Cart::add\<close> has no lower bound on the quantity. On the empty cart
  of \<^verbatim>\<open>main\<close>, adding 0 and then \<open>- 7\<close> scratch cards gives a cart with these two lines.
\<close>

theorem C9_counterexample:
  "cart (add_all [(3, 0), (3, - 7)] (main_init 0)) =
     [\<lparr>item_product = 3, item_quantity = 0\<rparr>, \<lparr>item_product = 3, item_quantity = - 7\<rparr>] \<and>
   \<not> (\<forall>i\<in>set (cart (add_all [(3, 0), (3, - 7)] (main_init 0))). 0 < item_quantity i)"
  by (simp add: add_def main_defs)

text \<open>
  C9, amended. Every line of a cart built by calls of \<^verbatim>\<open>Cart::add\<close> only has a quantity
  that is at most the stock of its product (which the calls do not change); a quantity
  that is zero or negative is accepted whenever the stock is not negative.
\<close>

theorem C9_lines_within_stock:
  "(cart s = [] \<longrightarrow>
      (\<forall>i\<in>set (cart (add_all ops s)).
         item_quantity i \<le> quantity (products (add_all ops s) (item_product i)))) \<and>
   (qty \<le> 0 \<and> 0 \<le> quantity (products s p) \<longrightarrow>
      add p qty s = Returns (s\<lparr>cart := cart s @ [\<lparr>item_product = p, item_quantity = qty\<rparr>]\<rparr>))"
proof (intro conjI impI)
  assume "cart s = []"
  then have "\<forall>i\<in>set (cart s). item_quantity i \<le> quantity (products s (item_product i))"
    by simp
  from add_all_within_stock [OF this, of ops]
  show "\<forall>i\<in>set (cart (add_all ops s)).
         item_quantity i \<le> quantity (products (add_all ops s) (item_product i))"
    by (simp add: add_all_products)
next
  assume "qty \<le> 0 \<and> 0 \<le> quantity (products s p)"
  then show "add p qty s = Returns (s\<lparr>cart := cart s @ [\<lparr>item_product = p, item_quantity = qty\<rparr>]\<rparr>)"
    by (simp add: add_def)
qed

theorem C9_lines_within_stock_witness:
  "cart (main_init 0) = [] \<and>
   cart (add_all [(0, 1), (2, 4), (3, 0), (1, 5)] (main_init 0)) =
     [\<lparr>item_product = 0, item_quantity = 1\<rparr>, \<lparr>item_product = 3, item_quantity = 0\<rparr>,
      \<lparr>item_product = 1, item_quantity = 5\<rparr>] \<and>
   list_all (\<lambda>i. item_quantity i \<le> quantity (main_products 86400 (item_product i)))
     (cart (add_all [(0, 1), (2, 4), (3, 0), (1, 5)] (main_init 0))) \<and>
   add 3 (- 7) (main_init 0) =
     Returns (main_init 0\<lparr>cart := [\<lparr>item_product = 3, item_quantity = - 7\<rparr>]\<rparr>)"
  using C9_lines_within_stock [where s = "main_init 0" and ops = "[(0, 1), (2, 4), (3, 0), (1, 5)]"
      and qty = "- 7" and p = 3]
  by (simp add: add_def main_defs list_all_iff)

text \<open>
  C10. \<^verbatim>\<open>Cart::add\<close> returns whenever the quantity is at most the stock of the product at
  the call, whatever lines the cart already has, for this product or another; and the
  validation of a checkout returns exactly when each line on its own is unexpired and
  within stock. Neither adds up the quantities of lines that point to one product.
\<close>

theorem C10_no_aggregation:
  "(q \<le> quantity (products s p) \<longrightarrow>
      add p q s = Returns (s\<lparr>cart := cart s @ [\<lparr>item_product = p, item_quantity = q\<rparr>]\<rparr>)) \<and>
   ((\<exists>r. checkout_lines dbl now (products s) (cart s) acc = Inr r) \<longleftrightarrow>
      (\<forall>i\<in>set (cart s). line_passes now (products s) i))"
proof (intro conjI impI)
  assume "q \<le> quantity (products s p)"
  then show "add p q s = Returns (s\<lparr>cart := cart s @ [\<lparr>item_product = p, item_quantity = q\<rparr>]\<rparr>)"
    by (simp add: add_def)
next
  show "(\<exists>r. checkout_lines dbl now (products s) (cart s) acc = Inr r) \<longleftrightarrow>
      (\<forall>i\<in>set (cart s). line_passes now (products s) i)"
    by (rule checkout_lines_Inr_iff)
qed

theorem C10_no_aggregation_witness:
  "(3::int) \<le> quantity (products (main_init 0\<lparr>cart := [\<lparr>item_product = 1, item_quantity = 3\<rparr>]\<rparr>) 1) \<and>
   add 1 3 (main_init 0\<lparr>cart := [\<lparr>item_product = 1, item_quantity = 3\<rparr>]\<rparr>) =
     Returns (main_init 0\<lparr>cart := [\<lparr>item_product = 1, item_quantity = 3\<rparr>,
                                   \<lparr>item_product = 1, item_quantity = 3\<rparr>]\<rparr>) \<and>
   requested 1 [\<lparr>item_product = 1, item_quantity = 3\<rparr>, \<lparr>item_product = 1, item_quantity = 3\<rparr>] >
     quantity (main_products 86400 1) \<and>
   list_all (line_passes 0 (main_products 86400))
     [\<lparr>item_product = 1, item_quantity = 3\<rparr>, \<lparr>item_product = 1, item_quantity = 3\<rparr>] \<and>
   (\<exists>r. checkout_lines double_of_int 0 (main_products 86400)
          [\<lparr>item_product = 1, item_quantity = 3\<rparr>, \<lparr>item_product = 1, item_quantity = 3\<rparr>]
          (double_of_int 0, double_of_int 0, []) = Inr r)"
  using C10_no_aggregation [where s = "main_init 0\<lparr>cart := [\<lparr>item_product = 1, item_quantity = 3\<rparr>]\<rparr>"
      and q = 3 and p = 1]
    C10_no_aggregation [where s = "main_init 0\<lparr>cart := [\<lparr>item_product = 1, item_quantity = 3\<rparr>,
        \<lparr>item_product = 1, item_quantity = 3\<rparr>]\<rparr>" and now = 0 and dbl = double_of_int and acc = "(double_of_int 0, double_of_int 0, [])"]
  by (simp add: main_init_values main_products_values isExpired_def requested_def list_all_iff)

end
